theory Spec2Isabelle
  imports Main
begin

section \<open>The pre-initialization step of the CLI (preInitSetup.ts)\<close>

text \<open>
  The module sequences shell invocations, telemetry calls and file-system operations.
  Its own control flow is embedded here; every collaborator that lives outside the file
  (the file system, the subprocess runner, the package-manager helpers, the feature-flag
  store, the telemetry emitter, the printer) is an oracle of the environment \<open>env\<close> or an
  event appended to the trace of the process.
\<close>

subsection \<open>Data\<close>

text \<open>Values thrown by the collaborators and the error built by \<open>cloneRepo\<close>.\<close>

datatype err =
    ExecError string
  | UrlError string
  | NonEmptyDirectoryError string
  | IOError string

text \<open>The object assigned to \<open>context.exeInfo.localEnvInfo\<close>.\<close>

record localEnvInfo =
  projectPath :: string
  defaultEditor :: string
  envName :: string

text \<open>
  The part of \<open>$TSContext\<close> this module touches: \<open>parameters.options.app\<close>,
  \<open>parameters.options.quickstart\<close>, \<open>exeInfo.localEnvInfo\<close> and
  \<open>exeInfo.inputParams.amplify.envName\<close>. Every other field of the context is the
  extension part of the record scheme. The objects \<open>exeInfo\<close>, \<open>exeInfo.inputParams\<close> and
  \<open>exeInfo.inputParams.amplify\<close> are taken to exist: the caller builds them before this
  step.
\<close>

record tsContext =
  optionsApp :: "string option"
  optionsQuickstart :: bool
  exeLocalEnvInfo :: "localEnvInfo option"
  inputParamsEnvName :: "string option"

text \<open>What the process does to the outside world, in order.\<close>

datatype event =
    PrintWarning string
  | PrintError string
  | EmitError err
  | EmitSuccess
  | ExitOnNextTick nat
  | ExecSync string
  | GenerateLocalEnvInfoFile "localEnvInfo option" "string option"
  | InsertAmplifyIgnore string
  | FsCopy string string
  | FFInitialize "localEnvInfo option"
  | FFEnsureDefault

text \<open>
  The process: the context object, the trace of events, the exit codes queued by
  \<open>exitOnNextTick\<close> (oldest first) and the flag \<open>FeatureFlags.isInitialized()\<close> reads.
\<close>

record 'x process =
  ctx :: "'x tsContext_scheme"
  trace :: "event list"
  scheduled :: "nat list"
  ffInitialized :: bool

text \<open>
  The environment. \<open>execThrows cmd = Some e\<close> says that \<open>execSync cmd\<close> throws \<open>e\<close>, and
  alike for the other collaborators that may fail. \<open>tickBefore l\<close> says whether the
  next-tick queue is run before the continuation of the \<open>await\<close> at source line \<open>l\<close>:
  the source does not fix the order of the two, it depends on where the caller sits in
  the event loop. \<open>dirEntries\<close> is the result of \<open>fs.readdirSync(process.cwd())\<close>: the
  entries of the directory, or the error the call throws. \<open>process.cwd()\<close>, the path
  functions and the two package-manager helpers are taken to succeed: the spec lists no
  failure for them.
\<close>

record env =
  cwd :: string
  dirEntries :: "err + string list"
  urlParseThrows :: "string \<Rightarrow> err option"
  execThrows :: "string \<Rightarrow> err option"
  packageManager :: "string option"
  normalizePackageManagerForOS :: "string option \<Rightarrow> string option"
  writeLocalEnvThrows :: "err option"
  insertIgnoreThrows :: "err option"
  copyThrows :: "err option"
  ffInitializeThrows :: "err option"
  ffEnsureThrows :: "err option"
  getGitIgnoreFilePath :: "string \<Rightarrow> string"
  getAmplifyDirPath :: "string \<Rightarrow> string"
  dirname :: string
  pathJoin :: "string list \<Rightarrow> string"
  tickBefore :: "nat \<Rightarrow> bool"

text \<open>
  How a call ends: it returns a value, throws, or the process is gone because a queued
  \<open>process.exit\<close> has run.
\<close>

datatype 'a outcome = Returned 'a | Threw err | Exited nat

subsection \<open>Control flow\<close>

definition andThen ::
  "'a outcome \<times> 's \<Rightarrow> ('a \<Rightarrow> 's \<Rightarrow> 'b outcome \<times> 's) \<Rightarrow> 'b outcome \<times> 's" where
  "andThen r k = (case r of
      (Returned v, s) \<Rightarrow> k v s
    | (Threw e, s) \<Rightarrow> (Threw e, s)
    | (Exited c, s) \<Rightarrow> (Exited c, s))"

definition tryCatch ::
  "'a outcome \<times> 's \<Rightarrow> (err \<Rightarrow> 's \<Rightarrow> 'a outcome \<times> 's) \<Rightarrow> 'a outcome \<times> 's" where
  "tryCatch r h = (case r of (Threw e, s) \<Rightarrow> h e s | _ \<Rightarrow> r)"

text \<open>
  \<open>await\<close> at source line \<open>l\<close>: when an exit is queued and the next-tick queue runs before
  the continuation, the process ends there with the oldest queued code; otherwise the
  awaited call's result (value or exception) is handed on.
\<close>

definition await :: "env \<Rightarrow> nat \<Rightarrow> 'a outcome \<times> 'x process \<Rightarrow> 'a outcome \<times> 'x process" where
  "await e l r = (case r of
      (Exited c, s) \<Rightarrow> (Exited c, s)
    | (out, s) \<Rightarrow> (case scheduled s of
          [] \<Rightarrow> (out, s)
        | c # _ \<Rightarrow> if tickBefore e l then (Exited c, s) else (out, s)))"

definition emit :: "event \<Rightarrow> 'x process \<Rightarrow> 'x process" where
  "emit ev s = s\<lparr>trace := trace s @ [ev]\<rparr>"

text \<open>
  Modelled from the spec: \<open>exitOnNextTick\<close> of amplify-cli-core is not in the source
  file. The spec says that the exit calls are deferred to the next scheduling tick
  rather than immediate, so the call queues the code and returns to its caller.
\<close>

definition exitOnNextTick :: "nat \<Rightarrow> 'x process \<Rightarrow> 'x process" where
  "exitOnNextTick c s = (emit (ExitOnNextTick c) s)\<lparr>scheduled := scheduled s @ [c]\<rparr>"

definition urlParse :: "env \<Rightarrow> string \<Rightarrow> 'x process \<Rightarrow> unit outcome \<times> 'x process" where
  "urlParse e u s = (case urlParseThrows e u of None \<Rightarrow> (Returned (), s) | Some x \<Rightarrow> (Threw x, s))"

definition execSync :: "env \<Rightarrow> string \<Rightarrow> 'x process \<Rightarrow> unit outcome \<times> 'x process" where
  "execSync e cmd s = (case execThrows e cmd of
      None \<Rightarrow> (Returned (), emit (ExecSync cmd) s)
    | Some x \<Rightarrow> (Threw x, emit (ExecSync cmd) s))"

definition generateLocalEnvInfoFile :: "env \<Rightarrow> 'x process \<Rightarrow> unit outcome \<times> 'x process" where
  "generateLocalEnvInfoFile e s =
    (let s' = emit (GenerateLocalEnvInfoFile (exeLocalEnvInfo (ctx s)) (inputParamsEnvName (ctx s))) s
     in case writeLocalEnvThrows e of None \<Rightarrow> (Returned (), s') | Some x \<Rightarrow> (Threw x, s'))"

definition insertAmplifyIgnore :: "env \<Rightarrow> string \<Rightarrow> 'x process \<Rightarrow> unit outcome \<times> 'x process" where
  "insertAmplifyIgnore e p s =
    (case insertIgnoreThrows e of
       None \<Rightarrow> (Returned (), emit (InsertAmplifyIgnore p) s)
     | Some x \<Rightarrow> (Threw x, emit (InsertAmplifyIgnore p) s))"

definition fsCopy :: "env \<Rightarrow> string \<Rightarrow> string \<Rightarrow> 'x process \<Rightarrow> unit outcome \<times> 'x process" where
  "fsCopy e src dst s =
    (case copyThrows e of
       None \<Rightarrow> (Returned (), emit (FsCopy src dst) s)
     | Some x \<Rightarrow> (Threw x, emit (FsCopy src dst) s))"

text \<open>
  Modelled from the spec: the feature-flag store of amplify-cli-core is not in the source
  file. The spec gives its interface (\<open>isInitialized() -> bool\<close>,
  \<open>initialize(provider, flag) -> void\<close>, \<open>ensureDefaults(flag) -> void\<close>), says that
  initialization reads the Local Environment Record through the provider, and that the
  store is initialized once it has been initialized successfully. The event records what
  the provider's \<open>getEnvInfo\<close> returns at that moment, \<open>context.exeInfo.localEnvInfo\<close>.
\<close>

definition ffInitialize :: "env \<Rightarrow> 'x process \<Rightarrow> unit outcome \<times> 'x process" where
  "ffInitialize e s =
    (let s' = emit (FFInitialize (exeLocalEnvInfo (ctx s))) s
     in case ffInitializeThrows e of
          None \<Rightarrow> (Returned (), s'\<lparr>ffInitialized := True\<rparr>)
        | Some x \<Rightarrow> (Threw x, s'))"

definition ffEnsureDefaultFeatureFlags :: "env \<Rightarrow> 'x process \<Rightarrow> unit outcome \<times> 'x process" where
  "ffEnsureDefaultFeatureFlags e s =
    (case ffEnsureThrows e of
       None \<Rightarrow> (Returned (), emit FFEnsureDefault s)
     | Some x \<Rightarrow> (Threw x, emit FFEnsureDefault s))"

text \<open>JavaScript truthiness of an optional string: \<open>undefined\<close> and \<open>''\<close> are falsy.\<close>

fun truthy :: "string option \<Rightarrow> bool" where
  "truthy None = False"
| "truthy (Some v) = (v \<noteq> [])"

subsection \<open>The functions of the module\<close>

definition validateGithubRepo :: "env \<Rightarrow> string \<Rightarrow> 'x process \<Rightarrow> unit outcome \<times> 'x process" where
  "validateGithubRepo e repoUrl s =
    tryCatch
      (andThen (urlParse e repoUrl s) (\<lambda>_ s1.
         execSync e (''git ls-remote '' @ repoUrl) s1))
      (\<lambda>x s1. (Returned (),
         exitOnNextTick 1 (emit (EmitError x) (emit (PrintError ''Invalid remote github url'') s1))))"

definition errMessage :: string where
  "errMessage = ''Please ensure you run this command in an empty directory''"

definition cloneRepo :: "env \<Rightarrow> string \<Rightarrow> 'x process \<Rightarrow> unit outcome \<times> 'x process" where
  "cloneRepo e repoUrl s =
    (case dirEntries e of
       Inl x \<Rightarrow> (Threw x, s)
     | Inr files \<Rightarrow>
        (let s1 = (if length files > 0
                   then exitOnNextTick 1
                          (emit (EmitError (NonEmptyDirectoryError errMessage))
                             (emit (PrintError errMessage) s))
                   else s)
         in tryCatch
              (execSync e (''git clone '' @ repoUrl @ '' .'') s1)
              (\<lambda>x s2. (Returned (), exitOnNextTick 1 (emit (EmitError x) s2)))))"

definition installPackage :: "env \<Rightarrow> 'x process \<Rightarrow> unit outcome \<times> 'x process" where
  "installPackage e s =
    andThen (await e 86 (Returned (packageManager e), s)) (\<lambda>pm s1.
    andThen (await e 87 (Returned (normalizePackageManagerForOS e pm), s1)) (\<lambda>normalizedPackageManager s2.
      if truthy normalizedPackageManager
      then execSync e (the normalizedPackageManager @ '' install'') s2
      else (Returned (), s2)))"

definition setLocalEnvDefaults :: "env \<Rightarrow> 'x process \<Rightarrow> unit outcome \<times> 'x process" where
  "setLocalEnvDefaults e s =
    (let projectPath' = cwd e;
         defaultEditor' = ''vscode'';
         envName' = ''sampledev'';
         s1 = emit (PrintWarning (''Setting default editor to '' @ defaultEditor')) s;
         s2 = emit (PrintWarning (''Setting environment to '' @ envName')) s1;
         s3 = emit (PrintWarning ''Run amplify configure project to change the default configuration later'') s2;
         s4 = s3\<lparr>ctx := (ctx s3)\<lparr>exeLocalEnvInfo :=
                 Some \<lparr>projectPath = projectPath', defaultEditor = defaultEditor', envName = envName'\<rparr>\<rparr>\<rparr>;
         s5 = s4\<lparr>ctx := (ctx s4)\<lparr>inputParamsEnvName := Some envName'\<rparr>\<rparr>
     in await e 114 (generateLocalEnvInfoFile e s5))"

definition createAmplifySkeleton :: "env \<Rightarrow> 'x process \<Rightarrow> unit outcome \<times> 'x process" where
  "createAmplifySkeleton e s =
    andThen (insertAmplifyIgnore e (getGitIgnoreFilePath e (cwd e)) s) (\<lambda>_ s1.
      let skeletonLocalDir = pathJoin e [dirname e, ''..'', ''..'', ''templates'', ''amplify-skeleton''];
          skeletonProjectDir = pathJoin e [getAmplifyDirPath e (cwd e)]
      in
    andThen (await e 126 (fsCopy e skeletonLocalDir skeletonProjectDir s1)) (\<lambda>_ s2.
    andThen (if \<not> ffInitialized s2
             then await e 136 (ffInitialize e s2)
             else (Returned (), s2)) (\<lambda>_ s3.
    await e 139 (ffEnsureDefaultFeatureFlags e s3))))"

definition preInitSetup :: "env \<Rightarrow> 'x process \<Rightarrow> 'x tsContext_scheme outcome \<times> 'x process" where
  "preInitSetup e s =
    andThen
      (if truthy (optionsApp (ctx s))
       then (let s1 = emit (PrintWarning ''Note: Amplify does not have knowledge of the url provided'') s;
                 repoUrl = the (optionsApp (ctx s))
             in
         andThen (await e 24 (validateGithubRepo e repoUrl s1)) (\<lambda>_ s2.
         andThen (await e 25 (cloneRepo e repoUrl s2)) (\<lambda>_ s3.
         andThen (await e 26 (installPackage e s3)) (\<lambda>_ s4.
         await e 27 (setLocalEnvDefaults e s4)))))
       else (Returned (), s)) (\<lambda>_ s5.
    andThen
      (if optionsQuickstart (ctx s5)
       then andThen (await e 31 (createAmplifySkeleton e s5)) (\<lambda>_ s6.
              (Returned (), exitOnNextTick 0 (emit EmitSuccess s6)))
       else (Returned (), s5)) (\<lambda>_ s7.
    (Returned (ctx s7), s7)))"

subsection \<open>The two arms of \<open>preInitSetup\<close>, named for the proofs\<close>

text \<open>
  \<open>sampleAppSteps\<close> is the body of the first conditional of \<open>preInitSetup\<close> after the
  warning, \<open>sampleAppArm\<close> the first conditional and \<open>quickstartArm\<close> the second one.
  Lemma \<open>preInitSetup_arms\<close> shows that \<open>preInitSetup\<close> is their composition.
\<close>

definition sampleAppSteps :: "env \<Rightarrow> string \<Rightarrow> 'x process \<Rightarrow> unit outcome \<times> 'x process" where
  "sampleAppSteps e repoUrl s1 =
     andThen (await e 24 (validateGithubRepo e repoUrl s1)) (\<lambda>_ s2.
     andThen (await e 25 (cloneRepo e repoUrl s2)) (\<lambda>_ s3.
     andThen (await e 26 (installPackage e s3)) (\<lambda>_ s4.
     await e 27 (setLocalEnvDefaults e s4))))"

definition sampleAppArm :: "env \<Rightarrow> 'x process \<Rightarrow> unit outcome \<times> 'x process" where
  "sampleAppArm e s =
     (if truthy (optionsApp (ctx s))
      then sampleAppSteps e (the (optionsApp (ctx s)))
             (emit (PrintWarning ''Note: Amplify does not have knowledge of the url provided'') s)
      else (Returned (), s))"

definition quickstartArm :: "env \<Rightarrow> 'x process \<Rightarrow> unit outcome \<times> 'x process" where
  "quickstartArm e s5 =
     (if optionsQuickstart (ctx s5)
      then andThen (await e 31 (createAmplifySkeleton e s5)) (\<lambda>_ s6.
             (Returned (), exitOnNextTick 0 (emit EmitSuccess s6)))
      else (Returned (), s5))"

abbreviation withDefaults :: "env \<Rightarrow> 'x tsContext_scheme \<Rightarrow> 'x tsContext_scheme" where
  "withDefaults e c \<equiv> c\<lparr>exeLocalEnvInfo :=
      Some \<lparr>projectPath = cwd e, defaultEditor = ''vscode'', envName = ''sampledev''\<rparr>,
      inputParamsEnvName := Some ''sampledev''\<rparr>"

subsection \<open>Predicates on events and repeated invocation\<close>

text \<open>
  An event hands over a populated Local Environment Record: the persistence call
  (\<open>persistsPopulated\<close>), and also the feature-flag initialization (\<open>readsPopulated\<close>).
\<close>

fun persistsPopulated :: "env \<Rightarrow> event \<Rightarrow> bool" where
  "persistsPopulated e (GenerateLocalEnvInfoFile r n) =
     (r = Some \<lparr>projectPath = cwd e, defaultEditor = ''vscode'', envName = ''sampledev''\<rparr>)"
| "persistsPopulated e _ = True"

fun readsPopulated :: "env \<Rightarrow> event \<Rightarrow> bool" where
  "readsPopulated e (GenerateLocalEnvInfoFile r n) =
     (r = Some \<lparr>projectPath = cwd e, defaultEditor = ''vscode'', envName = ''sampledev''\<rparr>)"
| "readsPopulated e (FFInitialize r) =
     (r = Some \<lparr>projectPath = cwd e, defaultEditor = ''vscode'', envName = ''sampledev''\<rparr>)"
| "readsPopulated e _ = True"

fun isFFInitialize :: "event \<Rightarrow> bool" where
  "isFFInitialize (FFInitialize r) = True"
| "isFFInitialize _ = False"

fun isFFEnsureDefault :: "event \<Rightarrow> bool" where
  "isFFEnsureDefault FFEnsureDefault = True"
| "isFFEnsureDefault _ = False"

text \<open>
  \<open>n\<close> invocations of the Skeleton Generator in one process, one after the other, each
  awaited by a caller that does not catch: an exception or an exit ends the sequence.
\<close>

fun skeletonTimes :: "nat \<Rightarrow> env \<Rightarrow> 'x process \<Rightarrow> unit outcome \<times> 'x process" where
  "skeletonTimes 0 e s = (Returned (), s)"
| "skeletonTimes (Suc n) e s = andThen (createAmplifySkeleton e s) (\<lambda>_ s'. skeletonTimes n e s')"

subsection \<open>Concrete environments and processes\<close>

text \<open>
  An environment in which every collaborator succeeds, the directory is empty, npm is
  detected and the continuation of each \<open>await\<close> runs before the next-tick queue (as it
  does when the caller is itself a promise continuation).
\<close>

definition quietEnv :: env where
  "quietEnv = \<lparr>cwd = ''/home/dev/app'', dirEntries = Inr [],
     urlParseThrows = (\<lambda>_. None), execThrows = (\<lambda>_. None),
     packageManager = Some ''npm'', normalizePackageManagerForOS = (\<lambda>p. p),
     writeLocalEnvThrows = None, insertIgnoreThrows = None, copyThrows = None,
     ffInitializeThrows = None, ffEnsureThrows = None,
     getGitIgnoreFilePath = (\<lambda>p. p @ ''/.gitignore''),
     getAmplifyDirPath = (\<lambda>p. p @ ''/amplify''),
     dirname = ''/cli/lib/init-steps'',
     pathJoin = (\<lambda>ps. foldr (\<lambda>a b. if b = [] then a else a @ ''/'' @ b) ps []),
     tickBefore = (\<lambda>_. False)\<rparr>"

text \<open>The subprocess runner that fails on the listed commands only.\<close>

definition failing :: "string list \<Rightarrow> string \<Rightarrow> err option" where
  "failing bad cmd = (if cmd \<in> set bad then Some (ExecError cmd) else None)"

text \<open>A fresh process with the given options and nothing set on \<open>exeInfo\<close>.\<close>

definition startProcess :: "string option \<Rightarrow> bool \<Rightarrow> unit process" where
  "startProcess app quick =
     \<lparr>ctx = \<lparr>optionsApp = app, optionsQuickstart = quick,
             exeLocalEnvInfo = None, inputParamsEnvName = None\<rparr>,
      trace = [], scheduled = [], ffInitialized = False\<rparr>"

text \<open>The URL parser that rejects every string.\<close>

definition rejectUrl :: "string \<Rightarrow> err option" where
  "rejectUrl u = Some (UrlError u)"


text \<open>
  No step of the sample-app path fails for the URL \<open>u\<close>: the URL parses, the remote
  listing and the clone succeed, the directory is empty, the install (if any) succeeds
  and the local environment file can be written.
\<close>

definition sampleAppSucceeds :: "env \<Rightarrow> string \<Rightarrow> bool" where
  "sampleAppSucceeds e u =
     (urlParseThrows e u = None \<and> execThrows e (''git ls-remote '' @ u) = None \<and>
      dirEntries e = Inr [] \<and> execThrows e (''git clone '' @ u @ '' .'') = None \<and>
      (case normalizePackageManagerForOS e (packageManager e) of
         None \<Rightarrow> True
       | Some m \<Rightarrow> m = [] \<or> execThrows e (m @ '' install'') = None) \<and>
      writeLocalEnvThrows e = None)"

section \<open>Properties\<close>

subsection \<open>Basic facts about the control flow\<close>

lemmas model_defs =
  preInitSetup_def validateGithubRepo_def cloneRepo_def installPackage_def
  setLocalEnvDefaults_def createAmplifySkeleton_def
  andThen_def tryCatch_def await_def emit_def exitOnNextTick_def urlParse_def execSync_def
  generateLocalEnvInfoFile_def insertAmplifyIgnore_def fsCopy_def ffInitialize_def
  ffEnsureDefaultFeatureFlags_def errMessage_def Let_def

lemma emit_simps [simp]:
  "trace (emit ev s) = trace s @ [ev]"
  "ctx (emit ev s) = ctx s"
  "scheduled (emit ev s) = scheduled s"
  "ffInitialized (emit ev s) = ffInitialized s"
  by (simp_all add: emit_def)

lemma exitOnNextTick_simps [simp]:
  "trace (exitOnNextTick c s) = trace s @ [ExitOnNextTick c]"
  "ctx (exitOnNextTick c s) = ctx s"
  "scheduled (exitOnNextTick c s) = scheduled s @ [c]"
  "ffInitialized (exitOnNextTick c s) = ffInitialized s"
  by (simp_all add: exitOnNextTick_def)

lemma snd_await [simp]: "snd (await e l r) = snd r"
  by (auto simp: await_def split: prod.splits outcome.splits list.splits)

lemma await_no_pending [simp]: "scheduled (snd r) = [] \<Longrightarrow> await e l r = r"
  by (auto simp: await_def split: prod.splits outcome.splits list.splits)

lemma fst_await_Returned: "fst (await e l r) = Returned v \<Longrightarrow> fst r = Returned v"
  by (auto simp: await_def split: prod.splits outcome.splits list.splits if_splits)

lemma andThen_simps [simp]:
  "andThen (Returned v, s) k = k v s"
  "andThen (Threw x, s) k = (Threw x, s)"
  "andThen (Exited c, s) k = (Exited c, s)"
  by (simp_all add: andThen_def)

text \<open>A property of the state that every step keeps holds after a sequence.\<close>

lemma snd_andThen_inv:
  assumes "I (snd r)" and "\<And>v. fst r = Returned v \<Longrightarrow> I (snd (k v (snd r)))"
  shows "I (snd (andThen r k))"
  using assms by (cases r; cases "fst r") (auto simp: andThen_def)

text \<open>A sequence that returns has run its first part to a return, and then the rest.\<close>

lemma andThen_ReturnedD:
  assumes "fst (andThen r k) = Returned v"
  shows "\<exists>w. fst r = Returned w \<and> andThen r k = k w (snd r)"
  using assms by (cases r; cases "fst r") (auto simp: andThen_def)

lemma andThen_ctx_same:
  assumes "\<And>v s. ctx (snd (k v s)) = ctx s"
  shows "ctx (snd (andThen r k)) = ctx (snd r)"
  using assms by (cases r; cases "fst r") (auto simp: andThen_def)

lemma snd_andThen_final [simp]: "snd (andThen r (\<lambda>v s. (Returned (g s), s))) = snd r"
  by (cases r; cases "fst r") (auto simp: andThen_def)

subsection \<open>The collaborators\<close>

lemma insertAmplifyIgnore_simps [simp]:
  "trace (snd (insertAmplifyIgnore e p s)) = trace s @ [InsertAmplifyIgnore p]"
  "ctx (snd (insertAmplifyIgnore e p s)) = ctx s"
  "scheduled (snd (insertAmplifyIgnore e p s)) = scheduled s"
  "ffInitialized (snd (insertAmplifyIgnore e p s)) = ffInitialized s"
  by (simp_all add: insertAmplifyIgnore_def split: option.splits)

lemma fsCopy_simps [simp]:
  "trace (snd (fsCopy e a b s)) = trace s @ [FsCopy a b]"
  "ctx (snd (fsCopy e a b s)) = ctx s"
  "scheduled (snd (fsCopy e a b s)) = scheduled s"
  "ffInitialized (snd (fsCopy e a b s)) = ffInitialized s"
  by (simp_all add: fsCopy_def split: option.splits)

lemma ffEnsure_simps [simp]:
  "trace (snd (ffEnsureDefaultFeatureFlags e s)) = trace s @ [FFEnsureDefault]"
  "ctx (snd (ffEnsureDefaultFeatureFlags e s)) = ctx s"
  "scheduled (snd (ffEnsureDefaultFeatureFlags e s)) = scheduled s"
  "ffInitialized (snd (ffEnsureDefaultFeatureFlags e s)) = ffInitialized s"
  by (simp_all add: ffEnsureDefaultFeatureFlags_def split: option.splits)

lemma ffInitialize_simps [simp]:
  "trace (snd (ffInitialize e s)) = trace s @ [FFInitialize (exeLocalEnvInfo (ctx s))]"
  "ctx (snd (ffInitialize e s)) = ctx s"
  "scheduled (snd (ffInitialize e s)) = scheduled s"
  "ffInitialized (snd (ffInitialize e s)) = (ffInitialized s \<or> ffInitializeThrows e = None)"
  "(fst (ffInitialize e s) = Returned v) = (ffInitializeThrows e = None)"
  by (auto simp: ffInitialize_def Let_def split: option.splits)

subsection \<open>What each function leaves untouched\<close>

lemma validate_frame [simp]:
  "ctx (snd (validateGithubRepo e u s)) = ctx s"
  "ffInitialized (snd (validateGithubRepo e u s)) = ffInitialized s"
  by (auto simp: validateGithubRepo_def tryCatch_def urlParse_def execSync_def
      split: option.splits)

lemma validate_returns [simp]: "fst (validateGithubRepo e u s) = Returned ()"
  by (auto simp: validateGithubRepo_def tryCatch_def urlParse_def execSync_def
      split: option.splits)

lemma cloneRepo_frame [simp]:
  "ctx (snd (cloneRepo e u s)) = ctx s"
  "ffInitialized (snd (cloneRepo e u s)) = ffInitialized s"
  by (auto simp: cloneRepo_def tryCatch_def execSync_def Let_def
      split: option.splits sum.splits)

lemma cloneRepo_returns: "dirEntries e = Inr files \<Longrightarrow> fst (cloneRepo e u s) = Returned ()"
  by (auto simp: cloneRepo_def tryCatch_def execSync_def Let_def split: option.splits)

lemma cloneRepo_listing_fails: "dirEntries e = Inl x \<Longrightarrow> cloneRepo e u s = (Threw x, s)"
  by (simp add: cloneRepo_def)

lemma installPackage_frame [simp]:
  "ctx (snd (installPackage e s)) = ctx s"
  "ffInitialized (snd (installPackage e s)) = ffInitialized s"
  "scheduled (snd (installPackage e s)) = scheduled s"
  by (auto simp: installPackage_def await_def execSync_def split: option.splits list.splits)

lemma setLocalEnvDefaults_frame [simp]:
  "ctx (snd (setLocalEnvDefaults e s)) = withDefaults e (ctx s)"
  "ffInitialized (snd (setLocalEnvDefaults e s)) = ffInitialized s"
  "scheduled (snd (setLocalEnvDefaults e s)) = scheduled s"
  by (auto simp: setLocalEnvDefaults_def generateLocalEnvInfoFile_def Let_def split: option.splits)

lemma setLocalEnvDefaults_trace:
  "trace (snd (setLocalEnvDefaults e s)) = trace s @
     [PrintWarning ''Setting default editor to vscode'',
      PrintWarning ''Setting environment to sampledev'',
      PrintWarning ''Run amplify configure project to change the default configuration later'',
      GenerateLocalEnvInfoFile
        (Some \<lparr>projectPath = cwd e, defaultEditor = ''vscode'', envName = ''sampledev''\<rparr>)
        (Some ''sampledev'')]"
  by (auto simp: setLocalEnvDefaults_def generateLocalEnvInfoFile_def Let_def split: option.splits)

lemma createAmplifySkeleton_frame [simp]:
  "ctx (snd (createAmplifySkeleton e s)) = ctx s"
  "scheduled (snd (createAmplifySkeleton e s)) = scheduled s"
  unfolding createAmplifySkeleton_def Let_def
  by ((rule snd_andThen_inv[where I = "\<lambda>s'. ctx s' = ctx s"] | simp)+,
      (rule snd_andThen_inv[where I = "\<lambda>s'. scheduled s' = scheduled s"] | simp)+)

subsection \<open>\<open>preInitSetup\<close> as the composition of its two arms\<close>

lemma preInitSetup_arms:
  "preInitSetup e s =
    andThen (sampleAppArm e s) (\<lambda>_ s5.
    andThen (quickstartArm e s5) (\<lambda>_ s7.
    (Returned (ctx s7), s7)))"
  unfolding preInitSetup_def sampleAppArm_def sampleAppSteps_def quickstartArm_def Let_def
  by (rule refl)

lemma sampleAppSteps_ctx_inv:
  assumes "P (ctx s)" and "P (withDefaults e (ctx s))"
  shows "P (ctx (snd (sampleAppSteps e u s)))"
  unfolding sampleAppSteps_def
  by (rule snd_andThen_inv[where I = "\<lambda>s'. P (ctx s')"] | simp add: assms)+

lemma sampleAppSteps_Returned:
  assumes "fst (sampleAppSteps e u s) = Returned v"
  shows "sampleAppSteps e u s =
     await e 27 (setLocalEnvDefaults e
       (snd (installPackage e (snd (cloneRepo e u (snd (validateGithubRepo e u s)))))))"
proof -
  from assms have 1: "sampleAppSteps e u s =
     andThen (await e 25 (cloneRepo e u (snd (validateGithubRepo e u s)))) (\<lambda>_ s3.
     andThen (await e 26 (installPackage e s3)) (\<lambda>_ s4.
     await e 27 (setLocalEnvDefaults e s4)))"
    unfolding sampleAppSteps_def by (auto dest!: andThen_ReturnedD)
  with assms have 2: "sampleAppSteps e u s =
     andThen (await e 26 (installPackage e (snd (cloneRepo e u (snd (validateGithubRepo e u s))))))
       (\<lambda>_ s4. await e 27 (setLocalEnvDefaults e s4))"
    by (auto dest!: andThen_ReturnedD)
  with assms show ?thesis
    by (auto dest!: andThen_ReturnedD)
qed

lemma sampleAppArm_ctx_inv:
  assumes "P (ctx s)" and "P (withDefaults e (ctx s))"
  shows "P (ctx (snd (sampleAppArm e s)))"
  unfolding sampleAppArm_def using assms
  by (auto intro: sampleAppSteps_ctx_inv)

lemma sampleAppArm_ctx_ret:
  assumes "fst (sampleAppArm e s) = Returned v" and "truthy (optionsApp (ctx s))"
  shows "ctx (snd (sampleAppArm e s)) = withDefaults e (ctx s)"
  using assms by (simp add: sampleAppArm_def sampleAppSteps_Returned)

lemma sampleAppArm_skip:
  "\<not> truthy (optionsApp (ctx s)) \<Longrightarrow> sampleAppArm e s = (Returned (), s)"
  by (simp add: sampleAppArm_def)

lemma quickstartArm_ctx [simp]: "ctx (snd (quickstartArm e s)) = ctx s"
  unfolding quickstartArm_def
  by (auto intro!: snd_andThen_inv[where I = "\<lambda>s'. ctx s' = ctx s"])

lemma quickstartArm_skip:
  "\<not> optionsQuickstart (ctx s) \<Longrightarrow> quickstartArm e s = (Returned (), s)"
  by (simp add: quickstartArm_def)

lemma preInitSetup_ctx: "ctx (snd (preInitSetup e s)) = ctx (snd (sampleAppArm e s))"
  unfolding preInitSetup_arms
  by (simp add: andThen_ctx_same)

lemma preInitSetup_Returned:
  assumes "fst (preInitSetup e s) = Returned c"
  shows "c = ctx (snd (preInitSetup e s)) \<and> fst (sampleAppArm e s) = Returned ()"
proof -
  let ?s5 = "snd (sampleAppArm e s)"
  from assms have 1: "fst (sampleAppArm e s) = Returned ()"
    and 2: "preInitSetup e s = andThen (quickstartArm e ?s5) (\<lambda>_ s7. (Returned (ctx s7), s7))"
    unfolding preInitSetup_arms by (auto dest!: andThen_ReturnedD)
  from assms 2 have "preInitSetup e s =
      (Returned (ctx (snd (quickstartArm e ?s5))), snd (quickstartArm e ?s5))"
    by (auto dest!: andThen_ReturnedD)
  with assms 1 show ?thesis by simp
qed

subsection \<open>Properties of the trace kept by every step\<close>

lemma validate_trace_inv:
  assumes "list_all Q (trace s)" and "\<And>c. Q (ExecSync c)" and "\<And>m. Q (PrintError m)"
    and "\<And>x. Q (EmitError x)" and "\<And>c. Q (ExitOnNextTick c)"
  shows "list_all Q (trace (snd (validateGithubRepo e u s)))"
  using assms
  by (auto simp: validateGithubRepo_def tryCatch_def urlParse_def execSync_def
      split: option.splits)

lemma cloneRepo_trace_inv:
  assumes "list_all Q (trace s)" and "\<And>c. Q (ExecSync c)" and "\<And>m. Q (PrintError m)"
    and "\<And>x. Q (EmitError x)" and "\<And>c. Q (ExitOnNextTick c)"
  shows "list_all Q (trace (snd (cloneRepo e u s)))"
  using assms
  by (auto simp: cloneRepo_def tryCatch_def execSync_def Let_def
      split: option.splits sum.splits)

lemma installPackage_trace_inv:
  assumes "list_all Q (trace s)" and "\<And>c. Q (ExecSync c)"
  shows "list_all Q (trace (snd (installPackage e s)))"
  using assms
  by (auto simp: installPackage_def await_def execSync_def split: option.splits list.splits)

lemma createAmplifySkeleton_trace_inv:
  assumes "list_all Q (trace s)" and "\<And>p. Q (InsertAmplifyIgnore p)" and "\<And>a b. Q (FsCopy a b)"
    and "Q (FFInitialize (exeLocalEnvInfo (ctx s)))" and "Q FFEnsureDefault"
  shows "list_all Q (trace (snd (createAmplifySkeleton e s)))"
  unfolding createAmplifySkeleton_def Let_def
  by (rule snd_andThen_inv[where I = "\<lambda>s'. list_all Q (trace s')"] | simp add: assms)+

lemma sampleAppArm_trace_inv:
  assumes "list_all Q (trace s)" and "\<And>c. Q (ExecSync c)" and "\<And>m. Q (PrintError m)"
    and "\<And>m. Q (PrintWarning m)"
    and "\<And>x. Q (EmitError x)" and "\<And>c. Q (ExitOnNextTick c)"
    and "\<And>n. Q (GenerateLocalEnvInfoFile
        (Some \<lparr>projectPath = cwd e, defaultEditor = ''vscode'', envName = ''sampledev''\<rparr>) n)"
  shows "list_all Q (trace (snd (sampleAppArm e s)))"
proof (cases "truthy (optionsApp (ctx s))")
  case False
  then show ?thesis using assms by (simp add: sampleAppArm_skip)
next
  case True
  show ?thesis unfolding sampleAppArm_def sampleAppSteps_def
    by (simp add: True, (rule snd_andThen_inv[where I = "\<lambda>s'. list_all Q (trace s')"]
        | simp add: assms validate_trace_inv cloneRepo_trace_inv installPackage_trace_inv
            setLocalEnvDefaults_trace)+)
qed

lemma quickstartArm_trace_inv:
  assumes "list_all Q (trace s)" and "\<And>p. Q (InsertAmplifyIgnore p)" and "\<And>a b. Q (FsCopy a b)"
    and "Q (FFInitialize (exeLocalEnvInfo (ctx s)))" and "Q FFEnsureDefault"
    and "Q EmitSuccess" and "\<And>c. Q (ExitOnNextTick c)"
  shows "list_all Q (trace (snd (quickstartArm e s)))"
  unfolding quickstartArm_def
  by (auto intro!: snd_andThen_inv[where I = "\<lambda>s'. list_all Q (trace s')"]
      simp: assms createAmplifySkeleton_trace_inv)

subsection \<open>The Skeleton Generator and the feature-flag store\<close>

lemma skeleton_initialized_skips:
  assumes "ffInitialized s"
  shows "filter isFFInitialize (trace (snd (createAmplifySkeleton e s)))
           = filter isFFInitialize (trace s) \<and>
         ffInitialized (snd (createAmplifySkeleton e s))"
  unfolding createAmplifySkeleton_def Let_def
  by (rule snd_andThen_inv[where I = "\<lambda>s'. filter isFFInitialize (trace s')
        = filter isFFInitialize (trace s) \<and> ffInitialized s'"] | simp add: assms)+

lemma skeleton_initializes_at_most_once:
  "length (filter isFFInitialize (trace (snd (createAmplifySkeleton e s))))
     \<le> length (filter isFFInitialize (trace s)) + 1"
  unfolding createAmplifySkeleton_def Let_def
  by (rule snd_andThen_inv[where I = "\<lambda>s'. length (filter isFFInitialize (trace s'))
        \<le> length (filter isFFInitialize (trace s)) + 1"] | simp)+

lemma skeleton_Returned:
  assumes "fst (createAmplifySkeleton e s) = Returned v"
  shows "ffInitialized (snd (createAmplifySkeleton e s)) \<and>
     length (filter isFFEnsureDefault (trace (snd (createAmplifySkeleton e s))))
       = length (filter isFFEnsureDefault (trace s)) + 1"
proof -
  let ?p = "getGitIgnoreFilePath e (cwd e)"
  let ?a = "pathJoin e [dirname e, ''..'', ''..'', ''templates'', ''amplify-skeleton'']"
  let ?b = "pathJoin e [getAmplifyDirPath e (cwd e)]"
  let ?s1 = "snd (insertAmplifyIgnore e ?p s)"
  let ?s2 = "snd (fsCopy e ?a ?b ?s1)"
  let ?r3 = "if \<not> ffInitialized ?s2 then await e 136 (ffInitialize e ?s2) else (Returned (), ?s2)"
  from assms have 1: "createAmplifySkeleton e s =
      andThen (await e 126 (fsCopy e ?a ?b ?s1)) (\<lambda>_ s2.
      andThen (if \<not> ffInitialized s2 then await e 136 (ffInitialize e s2) else (Returned (), s2))
        (\<lambda>_ s3. await e 139 (ffEnsureDefaultFeatureFlags e s3)))"
    unfolding createAmplifySkeleton_def Let_def by (auto dest!: andThen_ReturnedD)
  with assms have 2: "createAmplifySkeleton e s =
      andThen ?r3 (\<lambda>_ s3. await e 139 (ffEnsureDefaultFeatureFlags e s3))"
    by (auto dest!: andThen_ReturnedD)
  with assms obtain w where 3: "fst ?r3 = Returned w"
    and 4: "createAmplifySkeleton e s = await e 139 (ffEnsureDefaultFeatureFlags e (snd ?r3))"
    by (auto dest!: andThen_ReturnedD)
  have "ffInitialized (snd ?r3)"
    using 3 by (auto split: if_splits dest!: fst_await_Returned)
  moreover have "filter isFFEnsureDefault (trace (snd ?r3)) = filter isFFEnsureDefault (trace s)"
    by simp
  ultimately show ?thesis by (simp add: 4)
qed

lemma skeletonTimes_initialized:
  "ffInitialized s \<Longrightarrow>
     filter isFFInitialize (trace (snd (skeletonTimes n e s))) = filter isFFInitialize (trace s)"
proof (induction n arbitrary: s)
  case 0
  then show ?case by simp
next
  case (Suc n)
  let ?r = "createAmplifySkeleton e s"
  show ?case
  proof (cases "fst ?r")
    case (Returned v)
    then have "skeletonTimes (Suc n) e s = skeletonTimes n e (snd ?r)"
      by (cases ?r) simp
    then show ?thesis
      using Suc.IH[of "snd ?r"] skeleton_initialized_skips[OF Suc.prems, of e] by simp
  next
    case (Threw x)
    then have "skeletonTimes (Suc n) e s = (Threw x, snd ?r)" by (cases ?r) simp
    then show ?thesis using skeleton_initialized_skips[OF Suc.prems, of e] by simp
  next
    case (Exited c)
    then have "skeletonTimes (Suc n) e s = (Exited c, snd ?r)" by (cases ?r) simp
    then show ?thesis using skeleton_initialized_skips[OF Suc.prems, of e] by simp
  qed
qed

lemma skeletonTimes_at_most_once:
  "length (filter isFFInitialize (trace (snd (skeletonTimes n e s))))
     \<le> length (filter isFFInitialize (trace s)) + 1"
proof (cases n)
  case 0
  then show ?thesis by simp
next
  case (Suc k)
  let ?r = "createAmplifySkeleton e s"
  show ?thesis
  proof (cases "fst ?r")
    case (Returned v)
    then have "skeletonTimes n e s = skeletonTimes k e (snd ?r)"
      using Suc by (cases ?r) simp
    moreover have "ffInitialized (snd ?r)" using skeleton_Returned[OF Returned] by simp
    ultimately show ?thesis
      using skeletonTimes_initialized[of "snd ?r" k e] skeleton_initializes_at_most_once[of e s]
      by simp
  next
    case (Threw x)
    then have "skeletonTimes n e s = (Threw x, snd ?r)" using Suc by (cases ?r) simp
    then show ?thesis using skeleton_initializes_at_most_once[of e s] by simp
  next
    case (Exited c)
    then have "skeletonTimes n e s = (Exited c, snd ?r)" using Suc by (cases ?r) simp
    then show ?thesis using skeleton_initializes_at_most_once[of e s] by simp
  qed
qed

lemma skeletonTimes_ensures:
  "fst (skeletonTimes n e s) = Returned v \<Longrightarrow>
     length (filter isFFEnsureDefault (trace (snd (skeletonTimes n e s))))
       = length (filter isFFEnsureDefault (trace s)) + n"
proof (induction n arbitrary: s)
  case 0
  then show ?case by simp
next
  case (Suc n)
  let ?r = "createAmplifySkeleton e s"
  from Suc.prems obtain w where w: "fst ?r = Returned w"
    and eq: "skeletonTimes (Suc n) e s = skeletonTimes n e (snd ?r)"
    by (auto dest!: andThen_ReturnedD)
  from Suc.prems eq have "fst (skeletonTimes n e (snd ?r)) = Returned v" by simp
  from Suc.IH[OF this] skeleton_Returned[OF w] eq show ?case by simp
qed

subsection \<open>The paths on which nothing fails\<close>

lemma validateGithubRepo_ok:
  "urlParseThrows e u = None \<Longrightarrow> execThrows e (''git ls-remote '' @ u) = None \<Longrightarrow>
     validateGithubRepo e u s = (Returned (), emit (ExecSync (''git ls-remote '' @ u)) s)"
  by (simp add: validateGithubRepo_def tryCatch_def urlParse_def execSync_def)

lemma cloneRepo_invokes_clone:
  "dirEntries e = Inr files \<Longrightarrow>
     ExecSync (''git clone '' @ u @ '' .'') \<in> set (trace (snd (cloneRepo e u s)))"
  by (auto simp: cloneRepo_def tryCatch_def execSync_def Let_def split: option.splits)

lemma cloneRepo_empty_once:
  "dirEntries e = Inr [] \<Longrightarrow>
     filter (\<lambda>ev. ev = ExecSync (''git clone '' @ u @ '' .'')) (trace (snd (cloneRepo e u s)))
       = filter (\<lambda>ev. ev = ExecSync (''git clone '' @ u @ '' .'')) (trace s)
           @ [ExecSync (''git clone '' @ u @ '' .'')]"
  by (auto simp: cloneRepo_def tryCatch_def execSync_def Let_def split: option.splits)

lemma sampleAppArm_ok:
  assumes "scheduled s = []"
    and "truthy (optionsApp (ctx s)) \<Longrightarrow> sampleAppSucceeds e (the (optionsApp (ctx s)))"
  shows "fst (sampleAppArm e s) = Returned () \<and>
         scheduled (snd (sampleAppArm e s)) = [] \<and>
         ffInitialized (snd (sampleAppArm e s)) = ffInitialized s \<and>
         (\<exists>pre. trace (snd (sampleAppArm e s)) = trace s @ pre \<and> EmitSuccess \<notin> set pre \<and>
            (\<not> truthy (optionsApp (ctx s)) \<longrightarrow> pre = []))"
proof (cases "truthy (optionsApp (ctx s))")
  case False
  then show ?thesis using assms by (simp add: sampleAppArm_skip)
next
  case True
  with assms(2) have ok: "sampleAppSucceeds e (the (optionsApp (ctx s)))" by simp
  show ?thesis
    using ok assms(1) True
    by (auto simp: sampleAppArm_def sampleAppSteps_def sampleAppSucceeds_def
        validateGithubRepo_def cloneRepo_def installPackage_def setLocalEnvDefaults_def
        generateLocalEnvInfoFile_def tryCatch_def urlParse_def execSync_def Let_def
        split: option.splits)
qed

lemma quickstartArm_ok:
  assumes "optionsQuickstart (ctx s)" and "scheduled s = []"
    and "insertIgnoreThrows e = None" and "copyThrows e = None" and "ffEnsureThrows e = None"
    and "ffInitialized s \<or> ffInitializeThrows e = None"
  shows "fst (quickstartArm e s) = Returned () \<and>
         scheduled (snd (quickstartArm e s)) = [0] \<and>
         trace (snd (quickstartArm e s)) = trace s @
            [InsertAmplifyIgnore (getGitIgnoreFilePath e (cwd e)),
             FsCopy (pathJoin e [dirname e, ''..'', ''..'', ''templates'', ''amplify-skeleton''])
                    (pathJoin e [getAmplifyDirPath e (cwd e)])] @
            (if ffInitialized s then [] else [FFInitialize (exeLocalEnvInfo (ctx s))]) @
            [FFEnsureDefault, EmitSuccess, ExitOnNextTick 0]"
  using assms
  by (auto simp: quickstartArm_def createAmplifySkeleton_def insertAmplifyIgnore_def fsCopy_def
      ffInitialize_def ffEnsureDefaultFeatureFlags_def Let_def)

subsection \<open>The deferred exit and the steps after it\<close>

lemma await_no_tick [simp]: "\<not> tickBefore e l \<Longrightarrow> await e l r = r"
  by (auto simp: await_def split: prod.splits outcome.splits list.splits)

lemma validateGithubRepo_fails:
  "urlParseThrows e u = Some x \<or>
     (urlParseThrows e u = None \<and> execThrows e (''git ls-remote '' @ u) = Some x) \<Longrightarrow>
   fst (validateGithubRepo e u s) = Returned () \<and>
   scheduled (snd (validateGithubRepo e u s)) = scheduled s @ [1] \<and>
   (\<exists>probe. trace (snd (validateGithubRepo e u s)) = trace s @ probe @
      [PrintError ''Invalid remote github url'', EmitError x, ExitOnNextTick 1] \<and>
      set probe \<subseteq> {ExecSync (''git ls-remote '' @ u)})"
  by (auto simp: validateGithubRepo_def tryCatch_def urlParse_def execSync_def)

lemma installPackage_trace_mono:
  "ev \<in> set (trace s) \<Longrightarrow> ev \<in> set (trace (snd (installPackage e s)))"
  by (auto simp: installPackage_def await_def execSync_def split: option.splits list.splits)

lemma createAmplifySkeleton_trace_mono:
  "ev \<in> set (trace s) \<Longrightarrow> ev \<in> set (trace (snd (createAmplifySkeleton e s)))"
  unfolding createAmplifySkeleton_def Let_def
  by (rule snd_andThen_inv[where I = "\<lambda>s'. ev \<in> set (trace s')"] | simp)+

lemma quickstartArm_trace_mono:
  "ev \<in> set (trace s) \<Longrightarrow> ev \<in> set (trace (snd (quickstartArm e s)))"
  unfolding quickstartArm_def
  by (auto intro!: snd_andThen_inv[where I = "\<lambda>s'. ev \<in> set (trace s')"]
      simp: createAmplifySkeleton_trace_mono)

text \<open>
  After a failed validation the pipeline stops or goes on, as the event loop decides:
  when the next-tick queue runs first the process ends with code 1 before the clone;
  when the continuation runs first (and the directory can be listed) \<open>git clone\<close> is
  invoked.
\<close>

lemma invalid_url_exits_when_tick_first:
  assumes "truthy (optionsApp (ctx s))" and "scheduled s = []" and "tickBefore e 24"
    and "urlParseThrows e (the (optionsApp (ctx s))) = Some x \<or>
         (urlParseThrows e (the (optionsApp (ctx s))) = None \<and>
          execThrows e (''git ls-remote '' @ the (optionsApp (ctx s))) = Some x)"
  shows "fst (preInitSetup e s) = Exited 1 \<and>
         (\<forall>c. ExecSync (''git clone '' @ c) \<notin> set (trace (snd (preInitSetup e s))) - set (trace s))"
proof -
  let ?u = "the (optionsApp (ctx s))"
  let ?s1 = "emit (PrintWarning ''Note: Amplify does not have knowledge of the url provided'') s"
  obtain o2 s2 where v: "validateGithubRepo e ?u ?s1 = (o2, s2)"
    by (cases "validateGithubRepo e ?u ?s1")
  from validateGithubRepo_fails[OF assms(4), of ?s1] v assms(2) obtain probe where
    f: "o2 = Returned ()" "scheduled s2 = [1]"
       "trace s2 = trace ?s1 @ probe @
          [PrintError ''Invalid remote github url'', EmitError x, ExitOnNextTick 1]"
       "set probe \<subseteq> {ExecSync (''git ls-remote '' @ ?u)}"
    by auto
  have "await e 24 (validateGithubRepo e ?u ?s1) = (Exited 1, s2)"
    using f assms(3) by (simp add: v await_def)
  then have "preInitSetup e s = (Exited 1, s2)"
    using assms(1) by (simp add: preInitSetup_arms sampleAppArm_def sampleAppSteps_def)
  then show ?thesis using f by auto
qed

lemma invalid_url_clones_when_continuation_first:
  assumes "truthy (optionsApp (ctx s))" and "\<not> tickBefore e 24"
    and "dirEntries e = Inr files"
  shows "ExecSync (''git clone '' @ the (optionsApp (ctx s)) @ '' .'')
           \<in> set (trace (snd (preInitSetup e s)))"
proof -
  let ?u = "the (optionsApp (ctx s))"
  let ?s1 = "emit (PrintWarning ''Note: Amplify does not have knowledge of the url provided'') s"
  let ?s2 = "snd (validateGithubRepo e ?u ?s1)"
  define ev where "ev = ExecSync (''git clone '' @ ?u @ '' .'')"
  have c: "ev \<in> set (trace (snd (cloneRepo e ?u ?s2)))"
    unfolding ev_def using assms(3) by (rule cloneRepo_invokes_clone)
  have v: "validateGithubRepo e ?u ?s1 = (Returned (), ?s2)"
    by (simp add: prod_eq_iff)
  have "sampleAppSteps e ?u ?s1 =
     andThen (await e 25 (cloneRepo e ?u ?s2)) (\<lambda>_ s3.
     andThen (await e 26 (installPackage e s3)) (\<lambda>_ s4.
     await e 27 (setLocalEnvDefaults e s4)))"
    unfolding sampleAppSteps_def using assms(2) by (subst v) simp
  moreover have "ev \<in> set (trace (snd \<dots>))"
    by (rule snd_andThen_inv[where I = "\<lambda>s'. ev \<in> set (trace s')"]
        | simp add: c installPackage_trace_mono setLocalEnvDefaults_trace)+
  ultimately have "ev \<in> set (trace (snd (sampleAppArm e s)))"
    using assms(1) by (simp add: sampleAppArm_def)
  then have "ev \<in> set (trace (snd (preInitSetup e s)))"
    unfolding preInitSetup_arms
    by (intro snd_andThen_inv[where I = "\<lambda>s'. ev \<in> set (trace s')"])
       (simp_all add: quickstartArm_trace_mono)
  then show ?thesis unfolding ev_def .
qed

section \<open>The claims\<close>

text \<open>
  C1. The claim: for every working directory with at least one entry \<open>cloneRepo\<close> reports
  the fixed message, emits one telemetry error and ends the process with exit code 1
  without ever invoking the clone command; for an empty directory it invokes the clone
  command exactly once.

  The code at a directory holding one file, with a \<open>git clone\<close> that refuses the
  non-empty directory: after the message, the telemetry error and the deferred exit, the
  function goes on to the clone command, whose failure emits a second telemetry error and
  queues a second exit.
\<close>

theorem cloneRepo_nonempty_still_clones:
  "trace (snd (cloneRepo
      (quietEnv\<lparr>dirEntries := Inr [''README.md''],
                execThrows := failing [''git clone https://github.com/x/y.git .'']\<rparr>)
      ''https://github.com/x/y.git'' (startProcess (Some ''https://github.com/x/y.git'') False))) =
   [PrintError ''Please ensure you run this command in an empty directory'',
    EmitError (NonEmptyDirectoryError ''Please ensure you run this command in an empty directory''),
    ExitOnNextTick 1,
    ExecSync ''git clone https://github.com/x/y.git .'',
    EmitError (ExecError ''git clone https://github.com/x/y.git .''),
    ExitOnNextTick 1]"
  by (simp add: model_defs quietEnv_def startProcess_def failing_def)

text \<open>
  C2. The claim: for every app-mode invocation whose URL cannot be parsed or reached the
  validator ends the process with exit code 1 and emits exactly one telemetry error, no
  clone is attempted and no files are written; for a valid reachable URL the validator
  completes with no observable effect.

  The code at the option \<open>app = "not a url"\<close>, when the continuation of the \<open>await\<close> runs
  before the next-tick queue: the validator prints, emits one error and queues exit code
  1, then \<open>git clone\<close> is invoked (and fails), and the local environment file is written.
\<close>

theorem invalid_url_still_clones:
  "preInitSetup
      (quietEnv\<lparr>execThrows := failing [''git ls-remote not a url'', ''git clone not a url .''],
                packageManager := None\<rparr>)
      (startProcess (Some ''not a url'') False) =
   (Returned \<lparr>optionsApp = Some ''not a url'', optionsQuickstart = False,
       exeLocalEnvInfo = Some \<lparr>projectPath = ''/home/dev/app'', defaultEditor = ''vscode'',
                                envName = ''sampledev''\<rparr>,
       inputParamsEnvName = Some ''sampledev''\<rparr>,
    \<lparr>ctx = \<lparr>optionsApp = Some ''not a url'', optionsQuickstart = False,
         exeLocalEnvInfo = Some \<lparr>projectPath = ''/home/dev/app'', defaultEditor = ''vscode'',
                                  envName = ''sampledev''\<rparr>,
         inputParamsEnvName = Some ''sampledev''\<rparr>,
     trace =
       [PrintWarning ''Note: Amplify does not have knowledge of the url provided'',
        ExecSync ''git ls-remote not a url'',
        PrintError ''Invalid remote github url'',
        EmitError (ExecError ''git ls-remote not a url''),
        ExitOnNextTick 1,
        ExecSync ''git clone not a url .'',
        EmitError (ExecError ''git clone not a url .''),
        ExitOnNextTick 1,
        PrintWarning ''Setting default editor to vscode'',
        PrintWarning ''Setting environment to sampledev'',
        PrintWarning ''Run amplify configure project to change the default configuration later'',
        GenerateLocalEnvInfoFile
          (Some \<lparr>projectPath = ''/home/dev/app'', defaultEditor = ''vscode'',
                  envName = ''sampledev''\<rparr>)
          (Some ''sampledev'')],
     scheduled = [1, 1], ffInitialized = False\<rparr>)"
  by (simp add: model_defs quietEnv_def startProcess_def failing_def)

text \<open>
  C3. The claim: with an app option present the orchestrator runs validation, cloning,
  package installation and local-environment initialization in that order, and the whole
  process aborts at the first failing step with no later step executed.

  The code in a directory holding a \<open>package.json\<close>, with a reachable URL and a \<open>git clone\<close> that
  refuses the directory, when the continuations run before the next-tick queue: the steps
  run in the order stated, the cloning step fails twice over, and the installation and
  the local-environment initialization run all the same.
\<close>

theorem failed_clone_still_installs:
  "trace (snd (preInitSetup
      (quietEnv\<lparr>dirEntries := Inr [''package.json''],
                execThrows := failing [''git clone https://github.com/x/y.git .'']\<rparr>)
      (startProcess (Some ''https://github.com/x/y.git'') False))) =
     [PrintWarning ''Note: Amplify does not have knowledge of the url provided'',
      ExecSync ''git ls-remote https://github.com/x/y.git'',
      PrintError ''Please ensure you run this command in an empty directory'',
      EmitError (NonEmptyDirectoryError ''Please ensure you run this command in an empty directory''),
      ExitOnNextTick 1,
      ExecSync ''git clone https://github.com/x/y.git .'',
      EmitError (ExecError ''git clone https://github.com/x/y.git .''),
      ExitOnNextTick 1,
      ExecSync ''npm install'',
      PrintWarning ''Setting default editor to vscode'',
      PrintWarning ''Setting environment to sampledev'',
      PrintWarning ''Run amplify configure project to change the default configuration later'',
      GenerateLocalEnvInfoFile
        (Some \<lparr>projectPath = ''/home/dev/app'', defaultEditor = ''vscode'',
                envName = ''sampledev''\<rparr>)
        (Some ''sampledev'')]"
  by (simp add: model_defs quietEnv_def startProcess_def failing_def)

text \<open>
  C4. The claim: in every execution of the pipeline the Local Environment Record is fully
  populated before the persistence collaborator writes it and before the feature-flag
  initialization reads it through the provider.

  It fails on the quickstart-only path: nothing populates the record there, and the
  initialization reads what the caller left on the context.
\<close>

theorem quickstart_only_reads_unpopulated:
  "trace (snd (preInitSetup quietEnv (startProcess None True))) =
     [InsertAmplifyIgnore ''/home/dev/app/.gitignore'',
      FsCopy ''/cli/lib/init-steps/../../templates/amplify-skeleton'' ''/home/dev/app/amplify'',
      FFInitialize None, FFEnsureDefault, EmitSuccess, ExitOnNextTick 0]"
  by (simp add: model_defs quietEnv_def startProcess_def failing_def)

text \<open>
  C4, amended. In every execution the record handed to the persistence collaborator is
  fully populated; in every execution that takes the sample-app path, the record is fully
  populated also when the feature-flag initialization reads it. (Stated on the whole
  trace: a trace that satisfies the property before the call satisfies it after.)
\<close>

theorem populated_before_use:
  "(list_all (persistsPopulated e) (trace s) \<longrightarrow>
      list_all (persistsPopulated e) (trace (snd (preInitSetup e s)))) \<and>
   (truthy (optionsApp (ctx s)) \<and> list_all (readsPopulated e) (trace s) \<longrightarrow>
      list_all (readsPopulated e) (trace (snd (preInitSetup e s))))"
proof (intro conjI impI)
  assume a: "list_all (persistsPopulated e) (trace s)"
  have 1: "list_all (persistsPopulated e) (trace (snd (sampleAppArm e s)))"
    using a by (rule sampleAppArm_trace_inv) simp_all
  show "list_all (persistsPopulated e) (trace (snd (preInitSetup e s)))"
    unfolding preInitSetup_arms
    by (rule snd_andThen_inv[where I = "\<lambda>s'. list_all (persistsPopulated e) (trace s')"])
      (simp_all add: 1 quickstartArm_trace_inv)
next
  assume "truthy (optionsApp (ctx s)) \<and> list_all (readsPopulated e) (trace s)"
  then have t: "truthy (optionsApp (ctx s))" and a: "list_all (readsPopulated e) (trace s)"
    by simp_all
  have 1: "list_all (readsPopulated e) (trace (snd (sampleAppArm e s)))"
    using a by (rule sampleAppArm_trace_inv) simp_all
  show "list_all (readsPopulated e) (trace (snd (preInitSetup e s)))"
    unfolding preInitSetup_arms
  proof (rule snd_andThen_inv[where I = "\<lambda>s'. list_all (readsPopulated e) (trace s')"])
    show "list_all (readsPopulated e) (trace (snd (sampleAppArm e s)))" by (rule 1)
  next
    fix v assume "fst (sampleAppArm e s) = Returned v"
    then have "ctx (snd (sampleAppArm e s)) = withDefaults e (ctx s)"
      using t by (rule sampleAppArm_ctx_ret)
    then show "list_all (readsPopulated e)
       (trace (snd (andThen (quickstartArm e (snd (sampleAppArm e s)))
                      (\<lambda>_ s7. (Returned (ctx s7), s7)))))"
      by (simp add: 1 quickstartArm_trace_inv)
  qed
qed

text \<open>The amended C4 at an invocation with both options, in the quiet environment.\<close>

theorem populated_before_use_witness:
  "list_all (persistsPopulated quietEnv) (trace (startProcess (Some ''https://github.com/x/y.git'') True)) \<and>
   truthy (optionsApp (ctx (startProcess (Some ''https://github.com/x/y.git'') True))) \<and>
   list_all (readsPopulated quietEnv) (trace (startProcess (Some ''https://github.com/x/y.git'') True)) \<and>
   list_all (persistsPopulated quietEnv)
     (trace (snd (preInitSetup quietEnv (startProcess (Some ''https://github.com/x/y.git'') True)))) \<and>
   list_all (readsPopulated quietEnv)
     (trace (snd (preInitSetup quietEnv (startProcess (Some ''https://github.com/x/y.git'') True))))"
proof -
  let ?s = "startProcess (Some ''https://github.com/x/y.git'') True"
  have h1: "list_all (persistsPopulated quietEnv) (trace ?s)"
    and h2: "truthy (optionsApp (ctx ?s))"
    and h3: "list_all (readsPopulated quietEnv) (trace ?s)"
    by (simp_all add: startProcess_def)
  show ?thesis using populated_before_use[of quietEnv ?s] h1 h2 h3 by blast
qed

text \<open>
  C5. Across any number of invocations of the Skeleton Generator in one process,
  \<open>FeatureFlags.initialize\<close> is called at most once: an invocation that finds the store
  initialized adds no initialization, the \<open>n\<close> invocations together add at most one, and
  when all \<open>n\<close> return \<open>ensureDefaultFeatureFlags\<close> has run \<open>n\<close> times.
\<close>

theorem featureFlags_initialized_once:
  "(ffInitialized s \<longrightarrow>
      filter isFFInitialize (trace (snd (createAmplifySkeleton e s)))
        = filter isFFInitialize (trace s)) \<and>
   length (filter isFFInitialize (trace (snd (skeletonTimes n e s))))
     \<le> length (filter isFFInitialize (trace s)) + 1 \<and>
   (fst (skeletonTimes n e s) = Returned () \<longrightarrow>
      length (filter isFFEnsureDefault (trace (snd (skeletonTimes n e s))))
        = length (filter isFFEnsureDefault (trace s)) + n)"
  using skeleton_initialized_skips[of s e] skeletonTimes_at_most_once[of n e s]
    skeletonTimes_ensures[of n e s "()"]
  by blast

text \<open>
  C5 at two invocations in the quiet environment, from an initialized and from a fresh
  store.
\<close>

theorem featureFlags_initialized_once_witness:
  "ffInitialized ((startProcess None True)\<lparr>ffInitialized := True\<rparr>) \<and>
   filter isFFInitialize (trace (snd (createAmplifySkeleton quietEnv
       ((startProcess None True)\<lparr>ffInitialized := True\<rparr>)))) =
     filter isFFInitialize (trace ((startProcess None True)\<lparr>ffInitialized := True\<rparr>)) \<and>
   length (filter isFFInitialize (trace (snd (skeletonTimes (Suc (Suc 0)) quietEnv
       (startProcess None True))))) \<le> length (filter isFFInitialize (trace (startProcess None True))) + 1 \<and>
   fst (skeletonTimes (Suc (Suc 0)) quietEnv (startProcess None True)) = Returned () \<and>
   length (filter isFFEnsureDefault (trace (snd (skeletonTimes (Suc (Suc 0)) quietEnv
       (startProcess None True))))) =
     length (filter isFFEnsureDefault (trace (startProcess None True))) + Suc (Suc 0)"
proof -
  let ?s1 = "(startProcess None True)\<lparr>ffInitialized := True\<rparr>"
  let ?s0 = "startProcess None True"
  have h1: "ffInitialized ?s1" by simp
  have h2: "fst (skeletonTimes (Suc (Suc 0)) quietEnv ?s0) = Returned ()"
    by (simp add: model_defs quietEnv_def startProcess_def failing_def)
  show ?thesis
    using featureFlags_initialized_once[of ?s1 quietEnv "Suc (Suc 0)"]
      featureFlags_initialized_once[of ?s0 quietEnv "Suc (Suc 0)"] h1 h2
    by blast
qed




text \<open>
  C7. Whatever the options and the environment, \<open>setLocalEnvDefaults\<close> stores on the
  context the record with \<open>projectPath\<close> the working directory, \<open>defaultEditor\<close> "vscode"
  and \<open>envName\<close> "sampledev", stores "sampledev" in the input parameters, and only then
  calls the persistence collaborator, which sees both.
\<close>

theorem setLocalEnvDefaults_fixed_defaults:
  "ctx (snd (setLocalEnvDefaults e s)) = (ctx s)\<lparr>exeLocalEnvInfo :=
       Some \<lparr>projectPath = cwd e, defaultEditor = ''vscode'', envName = ''sampledev''\<rparr>,
       inputParamsEnvName := Some ''sampledev''\<rparr> \<and>
   trace (snd (setLocalEnvDefaults e s)) = trace s @
     [PrintWarning ''Setting default editor to vscode'',
      PrintWarning ''Setting environment to sampledev'',
      PrintWarning ''Run amplify configure project to change the default configuration later'',
      GenerateLocalEnvInfoFile
        (Some \<lparr>projectPath = cwd e, defaultEditor = ''vscode'', envName = ''sampledev''\<rparr>)
        (Some ''sampledev'')]"
  by (simp add: setLocalEnvDefaults_trace)

text \<open>
  C8. The claim: for every invocation with the quickstart flag set the skeleton is copied
  into the reserved configuration directory, default feature flags are ensured, one
  success event is emitted and the process ends with exit code 0.

  It fails when a step before the skeleton fails: with both options set and a failing
  \<open>npm install\<close> the exception leaves \<open>preInitSetup\<close>, nothing is copied, no success is
  emitted and no exit is queued.
\<close>

theorem quickstart_after_failed_install:
  "preInitSetup (quietEnv\<lparr>execThrows := failing [''npm install'']\<rparr>)
      (startProcess (Some ''https://github.com/x/y.git'') True) =
   (Threw (ExecError ''npm install''),
    \<lparr>ctx = \<lparr>optionsApp = Some ''https://github.com/x/y.git'', optionsQuickstart = True,
            exeLocalEnvInfo = None, inputParamsEnvName = None\<rparr>,
     trace = [PrintWarning ''Note: Amplify does not have knowledge of the url provided'',
              ExecSync ''git ls-remote https://github.com/x/y.git'',
              ExecSync ''git clone https://github.com/x/y.git .'',
              ExecSync ''npm install''],
     scheduled = [], ffInitialized = False\<rparr>)"
  by (simp add: model_defs quietEnv_def startProcess_def failing_def)

text \<open>
  C8, amended. For every invocation with the quickstart flag set, started with no exit
  pending, in which no step fails (the sample-app steps, when the app option is there,
  and the four collaborators of the Skeleton Generator): the ignore entry is inserted,
  the skeleton is copied into the configuration directory, the feature flags are
  initialized unless they were, default feature flags are ensured, one success event is
  emitted, \<open>preInitSetup\<close> returns the context, and exit code 0 is the one exit queued for
  the next tick.
\<close>

theorem quickstart_success:
  assumes "optionsQuickstart (ctx s)" and "scheduled s = []"
    and "truthy (optionsApp (ctx s)) \<Longrightarrow> sampleAppSucceeds e (the (optionsApp (ctx s)))"
    and "insertIgnoreThrows e = None" and "copyThrows e = None" and "ffEnsureThrows e = None"
    and "ffInitialized s \<or> ffInitializeThrows e = None"
  shows "fst (preInitSetup e s) = Returned (ctx (snd (preInitSetup e s))) \<and>
         scheduled (snd (preInitSetup e s)) = [0] \<and>
         (\<exists>pre. trace (snd (preInitSetup e s)) = trace s @ pre @
            [InsertAmplifyIgnore (getGitIgnoreFilePath e (cwd e)),
             FsCopy (pathJoin e [dirname e, ''..'', ''..'', ''templates'', ''amplify-skeleton''])
                    (pathJoin e [getAmplifyDirPath e (cwd e)])] @
            (if ffInitialized s then []
             else [FFInitialize (exeLocalEnvInfo (ctx (snd (preInitSetup e s))))]) @
            [FFEnsureDefault, EmitSuccess, ExitOnNextTick 0] \<and>
            EmitSuccess \<notin> set pre \<and> (\<not> truthy (optionsApp (ctx s)) \<longrightarrow> pre = []))"
proof -
  obtain o5 s5 where s5: "sampleAppArm e s = (o5, s5)" by (cases "sampleAppArm e s")
  from sampleAppArm_ok[OF assms(2,3)] s5 obtain pre where
    a: "o5 = Returned ()" "scheduled s5 = []" "ffInitialized s5 = ffInitialized s"
       "trace s5 = trace s @ pre" "EmitSuccess \<notin> set pre"
       "\<not> truthy (optionsApp (ctx s)) \<longrightarrow> pre = []"
    by auto
  have "optionsQuickstart (ctx (snd (sampleAppArm e s)))"
    by (rule sampleAppArm_ctx_inv) (simp_all add: assms(1))
  then have q: "optionsQuickstart (ctx s5)" by (simp add: s5)
  have i: "ffInitialized s5 \<or> ffInitializeThrows e = None"
    using assms(7) a(3) by simp
  obtain o6 s6 where s6: "quickstartArm e s5 = (o6, s6)" by (cases "quickstartArm e s5")
  from quickstartArm_ok[OF q a(2) assms(4,5,6) i] s6 have
    b: "o6 = Returned ()" "scheduled s6 = [0]"
       "trace s6 = trace s5 @
            [InsertAmplifyIgnore (getGitIgnoreFilePath e (cwd e)),
             FsCopy (pathJoin e [dirname e, ''..'', ''..'', ''templates'', ''amplify-skeleton''])
                    (pathJoin e [getAmplifyDirPath e (cwd e)])] @
            (if ffInitialized s5 then [] else [FFInitialize (exeLocalEnvInfo (ctx s5))]) @
            [FFEnsureDefault, EmitSuccess, ExitOnNextTick 0]"
    by auto
  have c: "ctx s6 = ctx s5" using quickstartArm_ctx[of e s5] by (simp add: s6)
  have r: "preInitSetup e s = (Returned (ctx s6), s6)"
    by (simp add: preInitSetup_arms s5 s6 a(1) b(1))
  show ?thesis
    unfolding r using a b c by auto
qed

text \<open>The amended C8 at an invocation with both options, in the quiet environment.\<close>

theorem quickstart_success_witness:
  "optionsQuickstart (ctx (startProcess (Some ''https://github.com/x/y.git'') True)) \<and>
   scheduled (startProcess (Some ''https://github.com/x/y.git'') True) = [] \<and>
   truthy (optionsApp (ctx (startProcess (Some ''https://github.com/x/y.git'') True))) \<and>
   sampleAppSucceeds quietEnv (the (optionsApp (ctx (startProcess (Some ''https://github.com/x/y.git'') True)))) \<and>
   insertIgnoreThrows quietEnv = None \<and> copyThrows quietEnv = None \<and>
   ffEnsureThrows quietEnv = None \<and> ffInitializeThrows quietEnv = None \<and>
   fst (preInitSetup quietEnv (startProcess (Some ''https://github.com/x/y.git'') True)) =
     Returned (ctx (snd (preInitSetup quietEnv (startProcess (Some ''https://github.com/x/y.git'') True)))) \<and>
   scheduled (snd (preInitSetup quietEnv (startProcess (Some ''https://github.com/x/y.git'') True))) = [0] \<and>
   trace (snd (preInitSetup quietEnv (startProcess (Some ''https://github.com/x/y.git'') True))) =
     [PrintWarning ''Note: Amplify does not have knowledge of the url provided'',
      ExecSync ''git ls-remote https://github.com/x/y.git'',
      ExecSync ''git clone https://github.com/x/y.git .'',
      ExecSync ''npm install'',
      PrintWarning ''Setting default editor to vscode'',
      PrintWarning ''Setting environment to sampledev'',
      PrintWarning ''Run amplify configure project to change the default configuration later'',
      GenerateLocalEnvInfoFile
        (Some \<lparr>projectPath = ''/home/dev/app'', defaultEditor = ''vscode'', envName = ''sampledev''\<rparr>)
        (Some ''sampledev''),
      InsertAmplifyIgnore ''/home/dev/app/.gitignore'',
      FsCopy ''/cli/lib/init-steps/../../templates/amplify-skeleton'' ''/home/dev/app/amplify'',
      FFInitialize
        (Some \<lparr>projectPath = ''/home/dev/app'', defaultEditor = ''vscode'', envName = ''sampledev''\<rparr>),
      FFEnsureDefault, EmitSuccess, ExitOnNextTick 0]"
proof -
  let ?s = "startProcess (Some ''https://github.com/x/y.git'') True"
  have h1: "optionsQuickstart (ctx ?s)" and h2: "scheduled ?s = []"
    and h3: "truthy (optionsApp (ctx ?s))"
    by (simp_all add: startProcess_def)
  have h4: "sampleAppSucceeds quietEnv (the (optionsApp (ctx ?s)))"
    by (simp add: sampleAppSucceeds_def quietEnv_def startProcess_def)
  have h5: "insertIgnoreThrows quietEnv = None" and h6: "copyThrows quietEnv = None"
    and h7: "ffEnsureThrows quietEnv = None" and h8: "ffInitializeThrows quietEnv = None"
    by (simp_all add: quietEnv_def)
  have c: "fst (preInitSetup quietEnv ?s) = Returned (ctx (snd (preInitSetup quietEnv ?s))) \<and>
           scheduled (snd (preInitSetup quietEnv ?s)) = [0]"
    using quickstart_success[of ?s quietEnv] h1 h2 h4 h5 h6 h7 h8 by blast
  have t: "trace (snd (preInitSetup quietEnv ?s)) =
     [PrintWarning ''Note: Amplify does not have knowledge of the url provided'',
      ExecSync ''git ls-remote https://github.com/x/y.git'',
      ExecSync ''git clone https://github.com/x/y.git .'',
      ExecSync ''npm install'',
      PrintWarning ''Setting default editor to vscode'',
      PrintWarning ''Setting environment to sampledev'',
      PrintWarning ''Run amplify configure project to change the default configuration later'',
      GenerateLocalEnvInfoFile
        (Some \<lparr>projectPath = ''/home/dev/app'', defaultEditor = ''vscode'', envName = ''sampledev''\<rparr>)
        (Some ''sampledev''),
      InsertAmplifyIgnore ''/home/dev/app/.gitignore'',
      FsCopy ''/cli/lib/init-steps/../../templates/amplify-skeleton'' ''/home/dev/app/amplify'',
      FFInitialize
        (Some \<lparr>projectPath = ''/home/dev/app'', defaultEditor = ''vscode'', envName = ''sampledev''\<rparr>),
      FFEnsureDefault, EmitSuccess, ExitOnNextTick 0]"
    by (simp add: model_defs quietEnv_def startProcess_def failing_def)
  show ?thesis using h1 h2 h3 h4 h5 h6 h7 h8 c t by blast
qed

text \<open>
  C9. The claim: no exception escapes the validator, the non-empty-directory check or the
  clone step; each of the three failures is reported by a fixed message, emitted to
  telemetry and turned into a deferred exit with code 1.

  It fails for the clone failure: in an empty directory a failing \<open>git clone\<close> is emitted
  to telemetry and queues the exit, and this module prints no message.
\<close>

theorem clone_failure_prints_nothing:
  "cloneRepo (quietEnv\<lparr>execThrows := failing [''git clone https://github.com/x/y.git .'']\<rparr>)
      ''https://github.com/x/y.git'' (startProcess (Some ''https://github.com/x/y.git'') False) =
   (Returned (),
    \<lparr>ctx = \<lparr>optionsApp = Some ''https://github.com/x/y.git'', optionsQuickstart = False,
            exeLocalEnvInfo = None, inputParamsEnvName = None\<rparr>,
     trace = [ExecSync ''git clone https://github.com/x/y.git .'',
              EmitError (ExecError ''git clone https://github.com/x/y.git .''),
              ExitOnNextTick 1],
     scheduled = [1], ffInitialized = False\<rparr>)"
  by (simp add: model_defs quietEnv_def startProcess_def failing_def)

text \<open>
  C9, amended. The validator always returns to its caller, and so does \<open>cloneRepo\<close>
  whenever the directory can be listed; an error of \<open>readdirSync\<close> is thrown outside the
  \<open>try\<close> and leaves \<open>cloneRepo\<close> with nothing printed, emitted or queued. A validation
  failure (in parsing or in the remote listing) prints the fixed message, emits the error
  and queues exit code 1; a non-empty directory prints its fixed message, emits the
  non-empty-directory error and queues exit code 1; every failure of \<open>git clone\<close> is
  emitted and queues exit code 1, with no message of its own.
\<close>

theorem handled_failures:
  "fst (validateGithubRepo e u s) = Returned () \<and>
   (urlParseThrows e u = Some x \<longrightarrow>
      snd (validateGithubRepo e u s) =
        exitOnNextTick 1 (emit (EmitError x) (emit (PrintError ''Invalid remote github url'') s))) \<and>
   (urlParseThrows e u = None \<and> execThrows e (''git ls-remote '' @ u) = Some x \<longrightarrow>
      snd (validateGithubRepo e u s) =
        exitOnNextTick 1 (emit (EmitError x) (emit (PrintError ''Invalid remote github url'')
          (emit (ExecSync (''git ls-remote '' @ u)) s)))) \<and>
   (dirEntries e = Inl x \<longrightarrow> cloneRepo e u s = (Threw x, s)) \<and>
   (dirEntries e = Inr files \<longrightarrow> fst (cloneRepo e u s) = Returned ()) \<and>
   (dirEntries e = Inr files \<and> files \<noteq> [] \<longrightarrow>
      (\<exists>rest more.
         trace (snd (cloneRepo e u s)) = trace s @
           [PrintError ''Please ensure you run this command in an empty directory'',
            EmitError (NonEmptyDirectoryError
              ''Please ensure you run this command in an empty directory''),
            ExitOnNextTick 1] @ rest \<and>
         scheduled (snd (cloneRepo e u s)) = scheduled s @ 1 # more)) \<and>
   (dirEntries e = Inr files \<and> execThrows e (''git clone '' @ u @ '' .'') = Some x \<longrightarrow>
      snd (cloneRepo e u s) =
        exitOnNextTick 1 (emit (EmitError x) (emit (ExecSync (''git clone '' @ u @ '' .''))
          (if files = [] then s
           else exitOnNextTick 1
                  (emit (EmitError (NonEmptyDirectoryError
                           ''Please ensure you run this command in an empty directory''))
                     (emit (PrintError
                        ''Please ensure you run this command in an empty directory'') s))))))"
  by (auto simp: validateGithubRepo_def cloneRepo_def tryCatch_def urlParse_def execSync_def
      errMessage_def Let_def split: option.splits)

text \<open>
  The amended C9 at a URL the parser rejects, a remote that cannot be listed, a
  directory that cannot be read, a directory with one file and a failing clone, and an
  empty directory and a failing clone.
\<close>

theorem handled_failures_witness:
  "urlParseThrows (quietEnv\<lparr>urlParseThrows := rejectUrl\<rparr>) ''http://[fe80::1%en0]/x.git''
     = Some (UrlError ''http://[fe80::1%en0]/x.git'') \<and>
   snd (validateGithubRepo (quietEnv\<lparr>urlParseThrows := rejectUrl\<rparr>) ''http://[fe80::1%en0]/x.git''
          (startProcess (Some ''http://[fe80::1%en0]/x.git'') False)) =
     exitOnNextTick 1 (emit (EmitError (UrlError ''http://[fe80::1%en0]/x.git''))
       (emit (PrintError ''Invalid remote github url'')
          (startProcess (Some ''http://[fe80::1%en0]/x.git'') False))) \<and>
   urlParseThrows (quietEnv\<lparr>execThrows := failing [''git ls-remote u'']\<rparr>) ''u'' = None \<and>
   execThrows (quietEnv\<lparr>execThrows := failing [''git ls-remote u'']\<rparr>) (''git ls-remote '' @ ''u'')
     = Some (ExecError ''git ls-remote u'') \<and>
   snd (validateGithubRepo (quietEnv\<lparr>execThrows := failing [''git ls-remote u'']\<rparr>) ''u''
          (startProcess (Some ''u'') False)) =
     exitOnNextTick 1 (emit (EmitError (ExecError ''git ls-remote u''))
       (emit (PrintError ''Invalid remote github url'')
          (emit (ExecSync (''git ls-remote '' @ ''u'')) (startProcess (Some ''u'') False)))) \<and>
   dirEntries (quietEnv\<lparr>dirEntries := Inl (IOError ''ENOENT'')\<rparr>) = Inl (IOError ''ENOENT'') \<and>
   cloneRepo (quietEnv\<lparr>dirEntries := Inl (IOError ''ENOENT'')\<rparr>) ''u'' (startProcess (Some ''u'') False)
     = (Threw (IOError ''ENOENT''), startProcess (Some ''u'') False) \<and>
   dirEntries (quietEnv\<lparr>dirEntries := Inr [''README.md''],
                        execThrows := failing [''git clone u .'']\<rparr>) = Inr [''README.md''] \<and>
   [''README.md''] \<noteq> [] \<and>
   execThrows (quietEnv\<lparr>dirEntries := Inr [''README.md''],
                        execThrows := failing [''git clone u .'']\<rparr>) (''git clone '' @ ''u'' @ '' .'')
     = Some (ExecError ''git clone u .'') \<and>
   fst (cloneRepo (quietEnv\<lparr>dirEntries := Inr [''README.md''],
                            execThrows := failing [''git clone u .'']\<rparr>) ''u''
          (startProcess (Some ''u'') False)) = Returned () \<and>
   (\<exists>rest more.
      trace (snd (cloneRepo (quietEnv\<lparr>dirEntries := Inr [''README.md''],
                                        execThrows := failing [''git clone u .'']\<rparr>) ''u''
                    (startProcess (Some ''u'') False))) =
        trace (startProcess (Some ''u'') False) @
          [PrintError ''Please ensure you run this command in an empty directory'',
           EmitError (NonEmptyDirectoryError
             ''Please ensure you run this command in an empty directory''),
           ExitOnNextTick 1] @ rest \<and>
      scheduled (snd (cloneRepo (quietEnv\<lparr>dirEntries := Inr [''README.md''],
                                            execThrows := failing [''git clone u .'']\<rparr>) ''u''
                        (startProcess (Some ''u'') False))) =
        scheduled (startProcess (Some ''u'') False) @ 1 # more) \<and>
   snd (cloneRepo (quietEnv\<lparr>dirEntries := Inr [''README.md''],
                            execThrows := failing [''git clone u .'']\<rparr>) ''u''
          (startProcess (Some ''u'') False)) =
     exitOnNextTick 1 (emit (EmitError (ExecError ''git clone u .''))
       (emit (ExecSync (''git clone '' @ ''u'' @ '' .''))
          (if [''README.md''] = [] then startProcess (Some ''u'') False
           else exitOnNextTick 1
                  (emit (EmitError (NonEmptyDirectoryError
                           ''Please ensure you run this command in an empty directory''))
                     (emit (PrintError
                        ''Please ensure you run this command in an empty directory'')
                        (startProcess (Some ''u'') False)))))) \<and>
   dirEntries (quietEnv\<lparr>execThrows := failing [''git clone u .'']\<rparr>) = Inr [] \<and>
   execThrows (quietEnv\<lparr>execThrows := failing [''git clone u .'']\<rparr>) (''git clone '' @ ''u'' @ '' .'')
     = Some (ExecError ''git clone u .'') \<and>
   snd (cloneRepo (quietEnv\<lparr>execThrows := failing [''git clone u .'']\<rparr>) ''u''
          (startProcess (Some ''u'') False)) =
     exitOnNextTick 1 (emit (EmitError (ExecError ''git clone u .''))
       (emit (ExecSync (''git clone '' @ ''u'' @ '' .''))
          (if ([]::string list) = [] then startProcess (Some ''u'') False
           else exitOnNextTick 1
                  (emit (EmitError (NonEmptyDirectoryError
                           ''Please ensure you run this command in an empty directory''))
                     (emit (PrintError
                        ''Please ensure you run this command in an empty directory'')
                        (startProcess (Some ''u'') False))))))"
proof -
  let ?v = "''http://[fe80::1%en0]/x.git''"
  let ?e1 = "quietEnv\<lparr>urlParseThrows := rejectUrl\<rparr>"
  let ?e2 = "quietEnv\<lparr>execThrows := failing [''git ls-remote u'']\<rparr>"
  let ?e3 = "quietEnv\<lparr>dirEntries := Inr [''README.md''],
                      execThrows := failing [''git clone u .'']\<rparr>"
  let ?e4 = "quietEnv\<lparr>execThrows := failing [''git clone u .'']\<rparr>"
  let ?e5 = "quietEnv\<lparr>dirEntries := Inl (IOError ''ENOENT'')\<rparr>"
  let ?s = "startProcess (Some ''u'') False"
  let ?x = "ExecError ''git clone u .''"
  have h1: "urlParseThrows ?e1 ?v = Some (UrlError ?v)"
    by (simp add: quietEnv_def rejectUrl_def)
  have h2: "urlParseThrows ?e2 ''u'' = None"
    "execThrows ?e2 (''git ls-remote '' @ ''u'') = Some (ExecError ''git ls-remote u'')"
    by (simp_all add: quietEnv_def failing_def)
  have h3: "dirEntries ?e3 = Inr [''README.md'']" "[''README.md''] \<noteq> []"
    "execThrows ?e3 (''git clone '' @ ''u'' @ '' .'') = Some ?x"
    by (simp_all add: quietEnv_def failing_def)
  have h4: "dirEntries ?e4 = Inr []"
    "execThrows ?e4 (''git clone '' @ ''u'' @ '' .'') = Some ?x"
    by (simp_all add: quietEnv_def failing_def)
  have h5: "dirEntries ?e5 = Inl (IOError ''ENOENT'')" by (simp add: quietEnv_def)
  have c1: "snd (validateGithubRepo ?e1 ?v (startProcess (Some ?v) False)) =
     exitOnNextTick 1 (emit (EmitError (UrlError ?v))
       (emit (PrintError ''Invalid remote github url'') (startProcess (Some ?v) False)))"
    using handled_failures[of ?e1 ?v "startProcess (Some ?v) False" "UrlError ?v" "[]"] h1
    by blast
  have c2: "snd (validateGithubRepo ?e2 ''u'' ?s) =
     exitOnNextTick 1 (emit (EmitError (ExecError ''git ls-remote u''))
       (emit (PrintError ''Invalid remote github url'')
          (emit (ExecSync (''git ls-remote '' @ ''u'')) ?s)))"
    using handled_failures[of ?e2 "''u''" ?s "ExecError ''git ls-remote u''" "[]"] h2
    by blast
  have c5: "cloneRepo ?e5 ''u'' ?s = (Threw (IOError ''ENOENT''), ?s)"
    using handled_failures[of ?e5 "''u''" ?s "IOError ''ENOENT''" "[]"] h5
    by blast
  note t3 = handled_failures[of ?e3 "''u''" ?s ?x "[''README.md'']"]
  have c3a: "fst (cloneRepo ?e3 ''u'' ?s) = Returned ()"
    using t3 h3 by blast
  have c3b: "\<exists>rest more.
      trace (snd (cloneRepo ?e3 ''u'' ?s)) = trace ?s @
          [PrintError ''Please ensure you run this command in an empty directory'',
           EmitError (NonEmptyDirectoryError
             ''Please ensure you run this command in an empty directory''),
           ExitOnNextTick 1] @ rest \<and>
      scheduled (snd (cloneRepo ?e3 ''u'' ?s)) = scheduled ?s @ 1 # more"
    using t3 h3 by blast
  have c3c: "snd (cloneRepo ?e3 ''u'' ?s) =
     exitOnNextTick 1 (emit (EmitError ?x)
       (emit (ExecSync (''git clone '' @ ''u'' @ '' .''))
          (if [''README.md''] = [] then ?s
           else exitOnNextTick 1
                  (emit (EmitError (NonEmptyDirectoryError
                           ''Please ensure you run this command in an empty directory''))
                     (emit (PrintError
                        ''Please ensure you run this command in an empty directory'') ?s)))))"
    using t3 h3 by blast
  have c4: "snd (cloneRepo ?e4 ''u'' ?s) =
     exitOnNextTick 1 (emit (EmitError ?x)
       (emit (ExecSync (''git clone '' @ ''u'' @ '' .''))
          (if ([]::string list) = [] then ?s
           else exitOnNextTick 1
                  (emit (EmitError (NonEmptyDirectoryError
                           ''Please ensure you run this command in an empty directory''))
                     (emit (PrintError
                        ''Please ensure you run this command in an empty directory'') ?s)))))"
    using handled_failures[of ?e4 "''u''" ?s ?x "[]"] h4 by blast
  show ?thesis
    by (intro conjI) (rule h1 h2 h3 h4 h5 c1 c2 c3a c3b c3c c4 c5)+
qed

text \<open>
  C10. When \<open>preInitSetup\<close> returns, it returns the context of the process. The context
  it leaves is the one it received, or the one it received with \<open>exeInfo.localEnvInfo\<close>
  and \<open>exeInfo.inputParams.amplify.envName\<close> set to the defaults, and the second only
  on the sample-app path; with neither option the call returns the context and changes
  nothing in the process.
\<close>

theorem preInitSetup_frame:
  "(\<forall>c. fst (preInitSetup e s) = Returned c \<longrightarrow>
       c = ctx (snd (preInitSetup e s)) \<and>
       (truthy (optionsApp (ctx s)) \<longrightarrow> c = (ctx s)\<lparr>exeLocalEnvInfo :=
          Some \<lparr>projectPath = cwd e, defaultEditor = ''vscode'', envName = ''sampledev''\<rparr>,
          inputParamsEnvName := Some ''sampledev''\<rparr>)) \<and>
   (\<not> truthy (optionsApp (ctx s)) \<longrightarrow> ctx (snd (preInitSetup e s)) = ctx s) \<and>
   (ctx (snd (preInitSetup e s)) = ctx s \<or>
    ctx (snd (preInitSetup e s)) = (ctx s)\<lparr>exeLocalEnvInfo :=
      Some \<lparr>projectPath = cwd e, defaultEditor = ''vscode'', envName = ''sampledev''\<rparr>,
      inputParamsEnvName := Some ''sampledev''\<rparr>) \<and>
   (\<not> truthy (optionsApp (ctx s)) \<and> \<not> optionsQuickstart (ctx s) \<longrightarrow>
      preInitSetup e s = (Returned (ctx s), s))"
proof (intro conjI allI impI)
  fix c assume r: "fst (preInitSetup e s) = Returned c"
  then show "c = ctx (snd (preInitSetup e s))" by (simp add: preInitSetup_Returned)
  assume "truthy (optionsApp (ctx s))"
  with r show "c = withDefaults e (ctx s)"
    using preInitSetup_Returned[OF r] sampleAppArm_ctx_ret[of e s "()"] preInitSetup_ctx[of e s]
    by simp
next
  assume "\<not> truthy (optionsApp (ctx s))"
  then show "ctx (snd (preInitSetup e s)) = ctx s"
    by (simp add: preInitSetup_ctx sampleAppArm_skip)
next
  show "ctx (snd (preInitSetup e s)) = ctx s \<or> ctx (snd (preInitSetup e s)) = withDefaults e (ctx s)"
    unfolding preInitSetup_ctx
    by (rule sampleAppArm_ctx_inv) simp_all
next
  assume "\<not> truthy (optionsApp (ctx s)) \<and> \<not> optionsQuickstart (ctx s)"
  then show "preInitSetup e s = (Returned (ctx s), s)"
    by (simp add: preInitSetup_arms sampleAppArm_skip quickstartArm_skip)
qed

text \<open>
  C10 at an invocation with the app option, one with the quickstart flag, and one with
  neither.
\<close>

theorem preInitSetup_frame_witness:
  "fst (preInitSetup quietEnv (startProcess (Some ''https://github.com/x/y.git'') False)) =
     Returned (ctx (snd (preInitSetup quietEnv (startProcess (Some ''https://github.com/x/y.git'') False)))) \<and>
   truthy (optionsApp (ctx (startProcess (Some ''https://github.com/x/y.git'') False))) \<and>
   ctx (snd (preInitSetup quietEnv (startProcess (Some ''https://github.com/x/y.git'') False))) =
     (ctx (startProcess (Some ''https://github.com/x/y.git'') False))\<lparr>exeLocalEnvInfo :=
        Some \<lparr>projectPath = cwd quietEnv, defaultEditor = ''vscode'', envName = ''sampledev''\<rparr>,
        inputParamsEnvName := Some ''sampledev''\<rparr> \<and>
   \<not> truthy (optionsApp (ctx (startProcess None True))) \<and>
   ctx (snd (preInitSetup quietEnv (startProcess None True))) = ctx (startProcess None True) \<and>
   \<not> truthy (optionsApp (ctx (startProcess None False))) \<and>
   \<not> optionsQuickstart (ctx (startProcess None False)) \<and>
   preInitSetup quietEnv (startProcess None False) =
     (Returned (ctx (startProcess None False)), startProcess None False)"
proof -
  let ?a = "startProcess (Some ''https://github.com/x/y.git'') False"
  have r: "preInitSetup quietEnv ?a =
    (Returned \<lparr>optionsApp = Some ''https://github.com/x/y.git'', optionsQuickstart = False,
       exeLocalEnvInfo = Some \<lparr>projectPath = ''/home/dev/app'', defaultEditor = ''vscode'',
                                envName = ''sampledev''\<rparr>,
       inputParamsEnvName = Some ''sampledev''\<rparr>,
    \<lparr>ctx = \<lparr>optionsApp = Some ''https://github.com/x/y.git'', optionsQuickstart = False,
         exeLocalEnvInfo = Some \<lparr>projectPath = ''/home/dev/app'', defaultEditor = ''vscode'',
                                  envName = ''sampledev''\<rparr>,
         inputParamsEnvName = Some ''sampledev''\<rparr>,
     trace =
       [PrintWarning ''Note: Amplify does not have knowledge of the url provided'',
        ExecSync ''git ls-remote https://github.com/x/y.git'',
        ExecSync ''git clone https://github.com/x/y.git .'',
        ExecSync ''npm install'',
        PrintWarning ''Setting default editor to vscode'',
        PrintWarning ''Setting environment to sampledev'',
        PrintWarning ''Run amplify configure project to change the default configuration later'',
        GenerateLocalEnvInfoFile
          (Some \<lparr>projectPath = ''/home/dev/app'', defaultEditor = ''vscode'',
                  envName = ''sampledev''\<rparr>)
          (Some ''sampledev'')],
     scheduled = [], ffInitialized = False\<rparr>)"
    by (simp add: model_defs quietEnv_def startProcess_def failing_def)
  have h1: "fst (preInitSetup quietEnv ?a) = Returned (ctx (snd (preInitSetup quietEnv ?a)))"
    by (simp add: r)
  have h2: "truthy (optionsApp (ctx ?a))" by (simp add: startProcess_def)
  have h3: "\<not> truthy (optionsApp (ctx (startProcess None True)))"
    "\<not> truthy (optionsApp (ctx (startProcess None False)))"
    "\<not> optionsQuickstart (ctx (startProcess None False))"
    by (simp_all add: startProcess_def)
  have c1: "ctx (snd (preInitSetup quietEnv ?a)) =
     (ctx ?a)\<lparr>exeLocalEnvInfo :=
        Some \<lparr>projectPath = cwd quietEnv, defaultEditor = ''vscode'', envName = ''sampledev''\<rparr>,
        inputParamsEnvName := Some ''sampledev''\<rparr>"
    using preInitSetup_frame[of quietEnv ?a] h1 h2 by simp
  have c2: "ctx (snd (preInitSetup quietEnv (startProcess None True))) = ctx (startProcess None True)"
    using preInitSetup_frame[of quietEnv "startProcess None True"] h3(1) by blast
  have c3: "preInitSetup quietEnv (startProcess None False) =
     (Returned (ctx (startProcess None False)), startProcess None False)"
    using preInitSetup_frame[of quietEnv "startProcess None False"] h3(2,3) by blast
  show ?thesis
    by (intro conjI) (rule h1 h2 h3 c1 c2 c3)+
qed

end
